theory Spec2Isabelle
  imports Main "HOL-Library.AList"
begin

section \<open>Python values, dictionaries, call arguments and exceptions\<close>

text \<open>
  The values the two modules pass around. A Python \<^verbatim>\<open>dict\<close> with string keys is an
  association list in insertion order with unique keys; storing a key that is present
  replaces its value in place, storing a new key appends it (\<open>AList.update\<close>).
\<close>

datatype pyval =
    PNone
  | PBool bool
  | PInt int
  | PStr string
  | PList "pyval list"
  | PDict "(string \<times> pyval) list"

type_synonym pydict = "(string \<times> pyval) list"

text \<open>A keyword argument of a call: left out (the default applies) or passed.\<close>

datatype 'a arg = Omitted | Given 'a

definition arg_or :: "'a \<Rightarrow> 'a arg \<Rightarrow> 'a" where
  "arg_or d a = (case a of Omitted \<Rightarrow> d | Given x \<Rightarrow> x)"

text \<open>An instance attribute: never assigned (reading it raises AttributeError) or assigned.\<close>

datatype 'a attr = Absent | Present 'a

datatype error =
    ValueError
  | AttributeError
  | KeyError
  | TypeError
  | NotImplementedError
  | Raised string

section \<open>orchestrator.py\<close>

subsection \<open>Collaborators taken as parameters\<close>

text \<open>
  The library calls of the constructor and of the output path: \<^verbatim>\<open>os.environ.get\<close>,
  \<^verbatim>\<open>str(uuid.uuid4())\<close>, \<^verbatim>\<open>pathlib.Path\<close>, \<^verbatim>\<open>Path.joinpath\<close> and \<^verbatim>\<open>os.path.split\<close>.
  \<open>'p\<close> is the type of path objects.
\<close>

record 'p ext =
  storage_container :: "string option"
  uuid4_str :: string
  mk_path :: "string \<Rightarrow> 'p"
  joinpath :: "'p \<Rightarrow> string \<Rightarrow> 'p"
  os_path_split :: "'p \<Rightarrow> string \<times> string"

text \<open>
  A registered class: calling it with the constructor options raises or yields an object,
  which is its table of named run operations.
\<close>

type_synonym 'c run_method = "'c \<Rightarrow> error + pyval"
type_synonym 'c pyobject = "string \<rightharpoonup> 'c run_method"
type_synonym 'c pyclass = "'c \<Rightarrow> error + 'c pyobject"
type_synonym 'c registry = "string \<rightharpoonup> 'c pyclass"

text \<open>A process dict; a key that is missing is \<open>None\<close> (subscripting it raises KeyError).\<close>

record 'c process_dict =
  process :: "string option"
  constructor_options :: "'c option"
  run_command :: "string option"
  run_options :: "'c option"

text \<open>The object behind \<^verbatim>\<open>self.interactor\<close>: a method it lacks is \<open>None\<close>.\<close>

record 'p interactor =
  i_write_file_to_disk :: "(pydict \<Rightarrow> 'p \<Rightarrow> error + pyval) option"
  i_write_file_to_blob_storage :: "(pydict \<Rightarrow> string \<Rightarrow> string \<Rightarrow> error + pyval) option"

text \<open>What a run does to the outside, in order.\<close>

datatype 'p event =
    Invoke string
  | RetryMsg pyval
  | DiskWrite pydict 'p
  | BlobWrite pydict string string

subsection \<open>The instance and its constructor\<close>

record 'c init_args =
  a_module_mapping :: "'c registry option arg"
  a_batch_id :: "string option arg"
  a_segment_list :: "string list option arg"
  a_run_config :: "(int \<rightharpoonup> 'c process_dict) option arg"
  a_results_channel :: "string option arg"
  a_id_val :: "string option arg"

text \<open>
  The attributes \<^verbatim>\<open>__init__\<close> assigns are plain fields. \<open>module_id_list\<close>,
  \<open>run_config\<close> and \<open>interactor\<close> are read by the methods and assigned by none of them.
\<close>

record ('c, 'p) orchestrator =
  segment_list :: "string list"
  id_val :: "string option"
  module_mapping :: "'c registry option"
  module_config :: "pyval"
  container :: "string option"
  base_path :: 'p
  results_channel :: string
  batch_id :: string
  module_id_list :: "int list attr"
  run_config :: "(int \<rightharpoonup> 'c process_dict) attr"
  interactor :: "'p interactor attr"

definition set_batch_id :: "'p ext \<Rightarrow> string" where
  "set_batch_id x = uuid4_str x"

text \<open>An f-string field of a value that is a string or None.\<close>

definition fstr :: "string option \<Rightarrow> string" where
  "fstr v = (case v of None \<Rightarrow> ''None'' | Some s \<Rightarrow> s)"

definition init :: "'p ext \<Rightarrow> 'c init_args \<Rightarrow> error + ('c, 'p) orchestrator" where
  "init x a =
     (let module_mapping_v = arg_or None (a_module_mapping a);
          batch_id_v = arg_or (Some ''batch_1'') (a_batch_id a);
          segment_list_v = arg_or None (a_segment_list a);
          results_channel_v = arg_or (Some ''blob_storage'') (a_results_channel a);
          id_val_v = arg_or None (a_id_val a)
      in case segment_list_v of
           None \<Rightarrow> Inl ValueError
         | Some sl \<Rightarrow>
             Inr \<lparr> segment_list = sl,
                   id_val = id_val_v,
                   module_mapping = module_mapping_v,
                   module_config = PNone,
                   container = storage_container x,
                   base_path = mk_path x (''forecast/'' @ fstr batch_id_v @ ''/segment_results/''),
                   results_channel =
                     (case results_channel_v of None \<Rightarrow> ''disk'' | Some c \<Rightarrow> c),
                   batch_id = (case batch_id_v of None \<Rightarrow> set_batch_id x | Some b \<Rightarrow> b),
                   module_id_list = Absent,
                   run_config = Absent,
                   interactor = Absent \<rparr>)"

subsection \<open>Routing the output\<close>

definition upload_file_to_output_channel ::
  "'p ext \<Rightarrow> ('c, 'p) orchestrator \<Rightarrow> pydict \<Rightarrow> 'p \<Rightarrow> 'p event list \<times> (error + unit)" where
  "upload_file_to_output_channel x self data_out file_name =
     (if results_channel self = ''disk'' then
        (case interactor self of
           Absent \<Rightarrow> ([], Inl AttributeError)
         | Present i \<Rightarrow>
             (case i_write_file_to_disk i of
                None \<Rightarrow> ([], Inl AttributeError)
              | Some w \<Rightarrow>
                  ([DiskWrite data_out file_name],
                   case w data_out file_name of Inl e \<Rightarrow> Inl e | Inr _ \<Rightarrow> Inr ())))
      else if results_channel self = ''azure_blob'' then
        (case os_path_split x file_name of
           (key, name) \<Rightarrow>
             (case interactor self of
                Absent \<Rightarrow> ([], Inl AttributeError)
              | Present i \<Rightarrow>
                  (case i_write_file_to_blob_storage i of
                     None \<Rightarrow> ([], Inl AttributeError)
                   | Some w \<Rightarrow>
                       ([BlobWrite data_out key name],
                        case w data_out key name of Inl e \<Rightarrow> Inl e | Inr _ \<Rightarrow> Inr ()))))
      else ([], Inl NotImplementedError))"

text \<open>\<^verbatim>\<open>'_'.join(segment_list)\<close>\<close>

fun join_underscore :: "string list \<Rightarrow> string" where
  "join_underscore [] = []"
| "join_underscore [s] = s"
| "join_underscore (s # t # ts) = s @ ''_'' @ join_underscore (t # ts)"

definition write_output ::
  "'p ext \<Rightarrow> ('c, 'p) orchestrator \<Rightarrow> pydict \<Rightarrow> string list \<Rightarrow> 'p event list \<times> (error + unit)" where
  "write_output x self data segs =
     upload_file_to_output_channel x self data
       (joinpath x (base_path self) (join_underscore segs @ ''_results.json''))"

subsection \<open>Running the processes of a segment\<close>

definition run_process ::
  "('c, 'p) orchestrator \<Rightarrow> 'c process_dict \<Rightarrow> 'p event list \<times> (error + pydict)" where
  "run_process self pd =
     (case process pd of
        None \<Rightarrow> ([], Inl KeyError)
      | Some name \<Rightarrow>
     (case module_mapping self of
        None \<Rightarrow> ([], Inl TypeError)
      | Some reg \<Rightarrow>
     (case reg name of
        None \<Rightarrow> ([], Inl KeyError)
      | Some cls \<Rightarrow>
     (case constructor_options pd of
        None \<Rightarrow> ([], Inl KeyError)
      | Some co \<Rightarrow>
          ([Invoke name],
           (case cls co of
              Inl e \<Rightarrow> Inl e
            | Inr obj \<Rightarrow>
           (case run_command pd of
              None \<Rightarrow> Inl KeyError
            | Some cmd \<Rightarrow>
           (case obj cmd of
              None \<Rightarrow> Inl AttributeError
            | Some m \<Rightarrow>
           (case run_options pd of
              None \<Rightarrow> Inl KeyError
            | Some ro \<Rightarrow>
           (case m ro of
              Inl e \<Rightarrow> Inl e
            | Inr result \<Rightarrow> Inr [(name, result)]))))))))))"

text \<open>\<^verbatim>\<open>{**base_dict, **append_dict}\<close>: a new dict; neither argument is changed.\<close>

definition append_to_results :: "pydict \<Rightarrow> pydict \<Rightarrow> pydict" where
  "append_to_results base_dict append_dict =
     foldl (\<lambda>d (k, v). AList.update k v d) base_dict append_dict"

text \<open>
  The loop of \<^verbatim>\<open>run_segment\<close>. The call \<^verbatim>\<open>self.append_to_results(results, result)\<close> is
  a statement: the dict it returns is bound to nothing and \<open>results\<close> stays as it was.
\<close>

fun run_loop ::
  "('c, 'p) orchestrator \<Rightarrow> pydict \<Rightarrow> int list \<Rightarrow> 'p event list \<times> (error + pydict)" where
  "run_loop self results [] = ([], Inr results)"
| "run_loop self results (p # ps) =
     (case run_config self of
        Absent \<Rightarrow> ([], Inl AttributeError)
      | Present rc \<Rightarrow>
     (case rc p of
        None \<Rightarrow> ([], Inl KeyError)
      | Some pd \<Rightarrow>
     (case run_process self pd of
        (ev, Inl e) \<Rightarrow> (ev, Inl e)
      | (ev, Inr result) \<Rightarrow>
          (let discarded = (if result \<noteq> [] then Some (append_to_results results result) else None)
           in case run_loop self results ps of (ev', r) \<Rightarrow> (ev @ ev', r)))))"

definition run_segment ::
  "'p ext \<Rightarrow> ('c, 'p) orchestrator \<Rightarrow> 'p event list \<times> (error + unit)" where
  "run_segment x self =
     (case module_id_list self of
        Absent \<Rightarrow> ([], Inl AttributeError)
      | Present ids \<Rightarrow>
     (case run_loop self [] ids of
        (ev, Inl e) \<Rightarrow> (ev, Inl e)
      | (ev, Inr results) \<Rightarrow>
          (let ev_retry =
                 (case map_of results ''run_queue'' of
                    None \<Rightarrow> []
                  | Some v \<Rightarrow> if v \<noteq> PNone then [RetryMsg v] else [])
           in case write_output x self results (segment_list self) of
                (ev_w, r) \<Rightarrow> (ev @ ev_retry @ ev_w, r))))"

section \<open>disk_writer.py\<close>

subsection \<open>Path strings\<close>

text \<open>\<^verbatim>\<open>str.rfind\<close> of one character: the last index holding it, or -1.\<close>

definition rfind :: "char \<Rightarrow> string \<Rightarrow> int" where
  "rfind c p =
     (if c \<in> set p then int (length p) - 1 - int (length (takeWhile (\<lambda>x. x \<noteq> c) (rev p)))
      else - 1)"

definition endswith :: "string \<Rightarrow> string \<Rightarrow> bool" where
  "endswith p suf = (length suf \<le> length p \<and> drop (length p - length suf) p = suf)"

text \<open>\<^verbatim>\<open>os.path.basename\<close>: what follows the last slash.\<close>

definition basename :: "string \<Rightarrow> string" where
  "basename p = drop (nat (rfind CHR ''/'' p + 1)) p"

text \<open>
  \<^verbatim>\<open>os.path.splitext\<close>: split at the last dot of the last component, unless only dots
  precede it there.
\<close>

definition splitext :: "string \<Rightarrow> string \<times> string" where
  "splitext p =
     (let sepIndex = rfind CHR ''/'' p; dotIndex = rfind CHR ''.'' p
      in if dotIndex > sepIndex \<and>
            (\<exists>x \<in> set (take (nat (dotIndex - (sepIndex + 1))) (drop (nat (sepIndex + 1)) p)).
               x \<noteq> CHR ''.'')
         then (take (nat dotIndex) p, drop (nat dotIndex) p)
         else (p, []))"

subsection \<open>The filesystem behind the \<^verbatim>\<open>os\<close> calls\<close>

text \<open>
  A tree of directories and regular files, addressed by the list of names from the root,
  and the working directory. A path string is split at the slashes; empty components and
  \<^verbatim>\<open>.\<close> vanish, \<^verbatim>\<open>..\<close> steps to the parent, and every component is looked up in
  what must be a directory. Symbolic links and permissions are outside the model.
\<close>

datatype node = File | Dir

datatype oserror =
    FileNotFoundError
  | FileExistsError
  | NotADirectoryError
  | IsADirectoryError

record fsys =
  tree :: "string list \<rightharpoonup> node"
  cwd :: "string list"

fun split_slash :: "string \<Rightarrow> string list" where
  "split_slash [] = [[]]"
| "split_slash (c # cs) =
     (if c = CHR ''/'' then [] # split_slash cs
      else (case split_slash cs of [] \<Rightarrow> [[c]] | w # ws \<Rightarrow> (c # w) # ws))"

definition components :: "string \<Rightarrow> string list" where
  "components p = filter (\<lambda>c. c \<noteq> [] \<and> c \<noteq> ''.'') (split_slash p)"

definition start_dir :: "fsys \<Rightarrow> string \<Rightarrow> string list" where
  "start_dir s p = (case p of [] \<Rightarrow> cwd s | c # _ \<Rightarrow> if c = CHR ''/'' then [] else cwd s)"

definition step :: "string list \<Rightarrow> string \<Rightarrow> string list" where
  "step cur c = (if c = ''..'' then butlast cur else cur @ [c])"

fun walk :: "(string list \<rightharpoonup> node) \<Rightarrow> string list \<Rightarrow> string list \<Rightarrow> oserror + string list" where
  "walk t cur [] = Inr cur"
| "walk t cur (c # cs) =
     (case t cur of
        None \<Rightarrow> Inl FileNotFoundError
      | Some File \<Rightarrow> Inl NotADirectoryError
      | Some Dir \<Rightarrow> walk t (step cur c) cs)"

text \<open>The node a path string names, if the lookup gets there.\<close>

definition lookup :: "fsys \<Rightarrow> string \<Rightarrow> oserror + string list" where
  "lookup s p =
     (if p = [] then Inl FileNotFoundError else walk (tree s) (start_dir s p) (components p))"

definition os_path_exists :: "fsys \<Rightarrow> string \<Rightarrow> bool" where
  "os_path_exists s p =
     (case lookup s p of Inl _ \<Rightarrow> False | Inr k \<Rightarrow> tree s k \<noteq> None)"

definition os_path_isdir :: "fsys \<Rightarrow> string \<Rightarrow> bool" where
  "os_path_isdir s p =
     (case lookup s p of Inl _ \<Rightarrow> False | Inr k \<Rightarrow> tree s k = Some Dir)"

definition os_mkdir :: "fsys \<Rightarrow> string \<Rightarrow> oserror + fsys" where
  "os_mkdir s p =
     (case lookup s p of
        Inl e \<Rightarrow> Inl e
      | Inr k \<Rightarrow>
          if tree s k \<noteq> None \<or> components p = [] \<or> last (components p) = ''..''
          then Inl FileExistsError
          else Inr (s\<lparr>tree := (tree s)(k \<mapsto> Dir)\<rparr>))"

text \<open>
  \<^verbatim>\<open>os.makedirs\<close> with \<open>exist_ok\<close> false: every missing level on the way is made; the
  leaf has to be new. Levels made before a failure stay.
\<close>

fun makedirs_walk ::
  "(string list \<rightharpoonup> node) \<Rightarrow> string list \<Rightarrow> bool \<Rightarrow> string list \<Rightarrow>
   (string list \<rightharpoonup> node) \<times> oserror option" where
  "makedirs_walk t cur fresh [] = (t, if fresh then None else Some FileExistsError)"
| "makedirs_walk t cur fresh (c # cs) =
     (case t cur of
        None \<Rightarrow> (t, Some FileNotFoundError)
      | Some File \<Rightarrow> (t, Some NotADirectoryError)
      | Some Dir \<Rightarrow>
          if c = ''..'' then makedirs_walk t (butlast cur) False cs
          else (case t (cur @ [c]) of
                  None \<Rightarrow> makedirs_walk (t(cur @ [c] \<mapsto> Dir)) (cur @ [c]) True cs
                | Some _ \<Rightarrow> makedirs_walk t (cur @ [c]) False cs))"

definition os_makedirs :: "fsys \<Rightarrow> string \<Rightarrow> fsys \<times> oserror option" where
  "os_makedirs s p =
     (if p = [] then (s, Some FileNotFoundError)
      else (case makedirs_walk (tree s) (start_dir s p) False (components p) of
              (t', r) \<Rightarrow> (s\<lparr>tree := t'\<rparr>, r)))"

definition os_remove :: "fsys \<Rightarrow> string \<Rightarrow> oserror + fsys" where
  "os_remove s p =
     (case lookup s p of
        Inl e \<Rightarrow> Inl e
      | Inr k \<Rightarrow>
          (case tree s k of
             None \<Rightarrow> Inl FileNotFoundError
           | Some Dir \<Rightarrow> Inl IsADirectoryError
           | Some File \<Rightarrow> Inr (s\<lparr>tree := (tree s)(k := None)\<rparr>)))"

subsection \<open>Directories\<close>

definition create_directory :: "fsys \<Rightarrow> string \<Rightarrow> fsys \<times> bool" where
  "create_directory s directory_path =
     (if \<not> os_path_exists s directory_path then
        (case os_mkdir s directory_path of
           Inr s' \<Rightarrow> (s', True)
         | Inl e \<Rightarrow> (s, False))
      else (s, False))"

text \<open>
  The branch for a path that exists prints and ends; the function then returns None.
\<close>

definition create_multilevel_directories :: "fsys \<Rightarrow> string \<Rightarrow> fsys \<times> pyval" where
  "create_multilevel_directories s directory_path =
     (if \<not> os_path_exists s directory_path then
        (case os_makedirs s directory_path of
           (s', None) \<Rightarrow> (s', PBool True)
         | (s', Some e) \<Rightarrow> (s', PBool False))
      else (s, PNone))"

subsection \<open>Deleting files\<close>

definition ret_result_or_bool :: "bool \<Rightarrow> bool \<Rightarrow> bool \<Rightarrow> bool" where
  "ret_result_or_bool ret_result result_when_true result_when_false =
     (if ret_result then result_when_true else result_when_false)"

definition delete_file :: "fsys \<Rightarrow> string \<Rightarrow> fsys \<times> bool" where
  "delete_file s file_name =
     (if os_path_exists s file_name then
        (case os_remove s file_name of
           Inr s' \<Rightarrow> (s', True)
         | Inl e \<Rightarrow> (s, False))
      else (s, True))"

definition delete_file_from_disk :: "fsys \<Rightarrow> string \<Rightarrow> bool \<Rightarrow> fsys \<times> bool" where
  "delete_file_from_disk s file_name ret_result =
     (case delete_file s file_name of
        (s', result) \<Rightarrow>
          if result then (s', ret_result_or_bool ret_result result True)
          else (s', ret_result_or_bool ret_result result False))"

subsection \<open>Writing files\<close>

text \<open>
  The serializers and the clock are library code, taken as parameters: each writer gets the
  payload, the file name and the state of the disk, and gives the new state and whether it
  raised. \<open>utcnow_stamp\<close> is \<^verbatim>\<open>datetime.utcnow().strftime('%Y.%m.%d_%H.%M.%S')\<close>.
\<close>

record ('s, 'd) writers =
  json_dump :: "'d \<Rightarrow> string \<Rightarrow> 's \<Rightarrow> 's \<times> error option"
  to_csv :: "'d \<Rightarrow> string \<Rightarrow> 's \<Rightarrow> 's \<times> error option"
  joblib_dump :: "'d \<Rightarrow> string \<Rightarrow> 's \<Rightarrow> 's \<times> error option"
  utcnow_stamp :: "'s \<Rightarrow> string"

definition set_upload_file_name :: "('s, 'd) writers \<Rightarrow> 's \<Rightarrow> string \<Rightarrow> string" where
  "set_upload_file_name W s file_name =
     (case splitext file_name of
        (root, ext) \<Rightarrow> root @ ''_'' @ utcnow_stamp W s @ ext)"

definition write_json_data ::
  "('s, 'd) writers \<Rightarrow> 'd \<Rightarrow> string \<Rightarrow> 's \<Rightarrow> 's \<times> error option" where
  "write_json_data W data_out file_name s = json_dump W data_out file_name s"

definition write_csv_data ::
  "('s, 'd) writers \<Rightarrow> 'd \<Rightarrow> string \<Rightarrow> 's \<Rightarrow> 's \<times> error option" where
  "write_csv_data W data_out file_name s = to_csv W data_out file_name s"

definition write_obj_data ::
  "('s, 'd) writers \<Rightarrow> 'd \<Rightarrow> string \<Rightarrow> 's \<Rightarrow> 's \<times> error option" where
  "write_obj_data W data_out file_name s = joblib_dump W data_out file_name s"

definition write_fun_from_file_extension ::
  "('s, 'd) writers \<Rightarrow> string \<Rightarrow> 'd \<Rightarrow> 's \<Rightarrow> 's \<times> error option" where
  "write_fun_from_file_extension W file_name data_out s =
     (if endswith file_name ''.json'' then write_json_data W data_out file_name s
      else if endswith file_name ''.csv'' then write_csv_data W data_out file_name s
      else write_obj_data W data_out file_name s)"

definition write_file :: "('s, 'd) writers \<Rightarrow> string \<Rightarrow> 'd \<Rightarrow> 's \<Rightarrow> 's \<times> bool" where
  "write_file W file_name data_out s =
     (case write_fun_from_file_extension W file_name data_out s of
        (s', None) \<Rightarrow> (s', True)
      | (s', Some e) \<Rightarrow> (s', False))"

definition write_file_to_disk ::
  "('s, 'd) writers \<Rightarrow> 'd \<Rightarrow> string \<Rightarrow> bool \<Rightarrow> bool \<Rightarrow> 's \<Rightarrow> 's \<times> bool" where
  "write_file_to_disk W data_out file_name include_datetime ret_result s =
     (let upload_file_name =
            (if include_datetime then set_upload_file_name W s file_name else file_name)
      in case write_file W upload_file_name data_out s of
           (s', result) \<Rightarrow>
             if result then (s', ret_result_or_bool ret_result result True)
             else (s', ret_result_or_bool ret_result result False))"

text \<open>The loop of \<^verbatim>\<open>write_files_to_disk\<close>, with \<open>return_data\<close> as built so far.\<close>

fun write_files_loop ::
  "('s, 'd) writers \<Rightarrow> bool \<Rightarrow> bool \<Rightarrow> (string \<times> bool) list \<Rightarrow> (string \<times> 'd) list \<Rightarrow> 's \<Rightarrow>
   's \<times> (string \<times> bool) list" where
  "write_files_loop W include_datetime ret_result return_data [] s = (s, return_data)"
| "write_files_loop W include_datetime ret_result return_data ((file_name, data_out) # rest) s =
     (case write_file_to_disk W data_out file_name include_datetime ret_result s of
        (s', b) \<Rightarrow>
          write_files_loop W include_datetime ret_result
            (AList.update (basename file_name) b return_data) rest s')"

definition write_files_to_disk ::
  "('s, 'd) writers \<Rightarrow> (string \<times> 'd) list \<Rightarrow> bool \<Rightarrow> bool \<Rightarrow> 's \<Rightarrow> 's \<times> (string \<times> bool) list" where
  "write_files_to_disk W file_name_to_data_out_list include_datetime ret_result s =
     write_files_loop W include_datetime ret_result [] file_name_to_data_out_list s"

section \<open>The UUID text format\<close>

text \<open>
  The canonical text of a UUID: 36 characters, hyphens at positions 8, 13, 18 and 23,
  lower-case hexadecimal digits elsewhere.
\<close>

definition is_hex :: "char \<Rightarrow> bool" where
  "is_hex c = (c \<in> set ''0123456789abcdef'')"

definition valid_uuid_format :: "string \<Rightarrow> bool" where
  "valid_uuid_format u =
     (length u = 36 \<and>
      list_all (\<lambda>(i, c). if i \<in> {8, 13, 18, 23} then c = CHR ''-'' else is_hex c)
        (zip [0..<36] u))"

section \<open>Concrete inputs\<close>

text \<open>Paths as plain strings, and one UUID the generator may return.\<close>

definition example_ext :: "string ext" where
  "example_ext =
     \<lparr> storage_container = None,
       uuid4_str = ''3f2b8c1e-9a4d-4e6f-8b7a-0c1d2e3f4a5b'',
       mk_path = (\<lambda>p. p),
       joinpath = (\<lambda>b n. b @ n),
       os_path_split = (\<lambda>p. (take (nat (rfind CHR ''/'' p)) p, basename p)) \<rparr>"

definition no_args :: "int init_args" where
  "no_args =
     \<lparr> a_module_mapping = Omitted, a_batch_id = Omitted, a_segment_list = Omitted,
       a_run_config = Omitted, a_results_channel = Omitted, a_id_val = Omitted \<rparr>"

text \<open>The call at the end of the module: \<^verbatim>\<open>LWOrchestrator(segment_list=["segment"], batch_id="test_1")\<close>.\<close>

definition main_args :: "int init_args" where
  "main_args =
     no_args\<lparr> a_segment_list := Given (Some [''segment'']),
              a_batch_id := Given (Some ''test_1'') \<rparr>"

definition main_self :: "(int, string) orchestrator" where
  "main_self =
     \<lparr> segment_list = [''segment''], id_val = None, module_mapping = None,
       module_config = PNone, container = None,
       base_path = ''forecast/test_1/segment_results/'',
       results_channel = ''blob_storage'', batch_id = ''test_1'',
       module_id_list = Absent, run_config = Absent, interactor = Absent \<rparr>"

text \<open>\<^verbatim>\<open>LWOrchestrator(segment_list=["segment"])\<close>: every other argument left out.\<close>

definition segment_only_args :: "int init_args" where
  "segment_only_args = no_args\<lparr> a_segment_list := Given (Some [''segment'']) \<rparr>"

definition default_self :: "(int, string) orchestrator" where
  "default_self =
     \<lparr> segment_list = [''segment''], id_val = None, module_mapping = None,
       module_config = PNone, container = None,
       base_path = ''forecast/batch_1/segment_results/'',
       results_channel = ''blob_storage'', batch_id = ''batch_1'',
       module_id_list = Absent, run_config = Absent, interactor = Absent \<rparr>"

text \<open>\<^verbatim>\<open>LWOrchestrator(segment_list=["segment"], batch_id=None, results_channel=None)\<close>\<close>

definition none_args :: "int init_args" where
  "none_args =
     no_args\<lparr> a_segment_list := Given (Some [''segment'']),
              a_batch_id := Given None, a_results_channel := Given None \<rparr>"

definition none_self :: "(int, string) orchestrator" where
  "none_self =
     \<lparr> segment_list = [''segment''], id_val = None, module_mapping = None,
       module_config = PNone, container = None,
       base_path = ''forecast/None/segment_results/'',
       results_channel = ''disk'', batch_id = ''3f2b8c1e-9a4d-4e6f-8b7a-0c1d2e3f4a5b'',
       module_id_list = Absent, run_config = Absent, interactor = Absent \<rparr>"

text \<open>
  A registered class \<open>k\<close> whose \<open>run\<close> returns the number it was constructed with, two
  process dicts for it, and an instance on which the three attributes the constructor
  leaves out have been assigned afterwards.
\<close>

definition class_k :: "int pyclass" where
  "class_k n = Inr [''run'' \<mapsto> (\<lambda>opts. Inr (PInt n))]"

definition spec_k :: "int \<Rightarrow> int process_dict" where
  "spec_k n =
     \<lparr> process = Some ''k'', constructor_options = Some n,
       run_command = Some ''run'', run_options = Some 0 \<rparr>"

definition disk_interactor :: "string interactor" where
  "disk_interactor =
     \<lparr> i_write_file_to_disk = Some (\<lambda>d f. Inr (PBool True)),
       i_write_file_to_blob_storage = None \<rparr>"

definition wired_self :: "(int, string) orchestrator" where
  "wired_self =
     \<lparr> segment_list = [''segment''], id_val = None,
       module_mapping = Some [''k'' \<mapsto> class_k],
       module_config = PNone, container = None,
       base_path = ''forecast/test_1/segment_results/'',
       results_channel = ''disk'', batch_id = ''test_1'',
       module_id_list = Present [1, 2],
       run_config = Present [1 \<mapsto> spec_k 1, 2 \<mapsto> spec_k 2],
       interactor = Present disk_interactor \<rparr>"

text \<open>
  The batch write told in the words of its contract: every entry is written once, in input
  order, whatever the earlier writes returned, and each outcome is listed under the base
  name of its destination.
\<close>

fun write_each ::
  "('s, 'd) writers \<Rightarrow> bool \<Rightarrow> bool \<Rightarrow> (string \<times> 'd) list \<Rightarrow> 's \<Rightarrow> 's \<times> (string \<times> bool) list" where
  "write_each W include_datetime ret_result [] s = (s, [])"
| "write_each W include_datetime ret_result ((file_name, data_out) # rest) s =
     (case write_file_to_disk W data_out file_name include_datetime ret_result s of
        (s', b) \<Rightarrow>
          (case write_each W include_datetime ret_result rest s' of
             (s'', bs) \<Rightarrow> (s'', (basename file_name, b) # bs)))"

text \<open>A disk holding only the root directory, and one that also holds a regular file \<open>f\<close>.\<close>

definition fs_root :: fsys where
  "fs_root = \<lparr> tree = [[] \<mapsto> Dir], cwd = [] \<rparr>"

definition fs_file :: fsys where
  "fs_file = \<lparr> tree = [[] \<mapsto> Dir, [''f''] \<mapsto> File], cwd = [] \<rparr>"

text \<open>
  Writers that record every file name they are called with and raise for a name under
  \<open>missing/\<close>, a directory that is not there.
\<close>

definition raises_under_missing :: "pyval \<Rightarrow> string \<Rightarrow> string list \<Rightarrow> string list \<times> error option" where
  "raises_under_missing d f s =
     (s @ [f], if take 8 f = ''missing/'' then Some (Raised ''FileNotFoundError'') else None)"

definition log_writers :: "(string list, pyval) writers" where
  "log_writers =
     \<lparr> json_dump = raises_under_missing, to_csv = raises_under_missing,
       joblib_dump = raises_under_missing,
       utcnow_stamp = (\<lambda>s. ''2024.01.02_03.04.05'') \<rparr>"

section \<open>Properties of the orchestrator\<close>

lemma init_main: "init example_ext main_args = Inr main_self"
  by (simp add: init_def main_args_def no_args_def main_self_def arg_or_def fstr_def
      example_ext_def)

lemma init_segment_only: "init example_ext segment_only_args = Inr default_self"
  by (simp add: init_def segment_only_args_def no_args_def default_self_def arg_or_def
      fstr_def example_ext_def)

lemma init_none: "init example_ext none_args = Inr none_self"
  by (simp add: init_def none_args_def no_args_def none_self_def arg_or_def fstr_def
      set_batch_id_def example_ext_def)

lemma init_attributes:
  assumes "init x a = Inr self"
  shows "module_id_list self = Absent" and "run_config self = Absent"
    and "interactor self = Absent"
  using assms by (auto simp: init_def Let_def split: option.splits)

text \<open>
  The loop hands back the dict it was given: no iteration stores a process result in it.
\<close>

lemma run_loop_keeps_results: "run_loop self results ids = (ev, Inr r) \<Longrightarrow> r = results"
  by (induction ids arbitrary: ev)
     (auto split: attr.splits option.splits prod.splits sum.splits)

text \<open>
  Whatever the processes return, a payload that a run hands to a writer is the empty dict.
\<close>

lemma run_process_events:
  "run_process self pd = (ev, r) \<Longrightarrow> e \<in> set ev \<Longrightarrow> \<exists>n. e = Invoke n"
  by (auto simp: run_process_def split: option.splits)

lemma run_loop_events:
  "run_loop self results ids = (ev, r) \<Longrightarrow> e \<in> set ev \<Longrightarrow> \<exists>n. e = Invoke n"
proof (induction ids arbitrary: ev r)
  case Nil
  then show ?case by simp
next
  case (Cons p ps)
  from Cons.prems(1) obtain rc pd ev1 r1 where
    rc: "run_config self = Present rc" "rc p = Some pd"
    and rp: "run_process self pd = (ev1, r1)"
    using Cons.prems(2)
    by (cases "run_process self (the (case run_config self of Present rc \<Rightarrow> rc p))")
       (auto split: attr.splits option.splits)
  show ?case
  proof (cases r1)
    case (Inl err)
    with Cons.prems rc rp run_process_events [OF rp] show ?thesis by auto
  next
    case (Inr result)
    obtain ev2 r2 where rl: "run_loop self results ps = (ev2, r2)"
      by (cases "run_loop self results ps")
    with Cons.prems(1) rc rp Inr have "ev = ev1 @ ev2" by (simp add: Let_def)
    with Cons.prems(2) run_process_events [OF rp] Cons.IH [OF rl] show ?thesis by auto
  qed
qed

lemma upload_events:
  "upload_file_to_output_channel x self data_out file_name = (ev, r) \<Longrightarrow>
     DiskWrite d f \<in> set ev \<or> BlobWrite d k n \<in> set ev \<Longrightarrow> d = data_out"
  by (auto simp: upload_file_to_output_channel_def
      split: if_splits attr.splits option.splits prod.splits)

lemma run_segment_written_data_empty:
  assumes "run_segment x self = (ev, r)"
    and "DiskWrite d f \<in> set ev \<or> BlobWrite d k n \<in> set ev"
  shows "d = []"
proof -
  from assms obtain ids where ids: "module_id_list self = Present ids"
    by (cases "module_id_list self") (auto simp: run_segment_def)
  obtain ev1 r1 where rl: "run_loop self [] ids = (ev1, r1)"
    by (cases "run_loop self [] ids")
  have inv: "\<And>e. e \<in> set ev1 \<Longrightarrow> \<exists>n. e = Invoke n"
    using run_loop_events [OF rl] .
  show ?thesis
  proof (cases r1)
    case (Inl err)
    with assms ids rl inv show ?thesis
      by (auto simp: run_segment_def)
  next
    case (Inr results)
    with run_loop_keeps_results rl have res: "results = []" by blast
    obtain ev2 r2 where w: "write_output x self [] (segment_list self) = (ev2, r2)"
      by (cases "write_output x self [] (segment_list self)")
    with assms(1) ids rl Inr res have ev: "ev = ev1 @ ev2"
      by (simp add: run_segment_def)
    from w have "DiskWrite d f \<in> set ev2 \<or> BlobWrite d k n \<in> set ev2 \<Longrightarrow> d = []"
      unfolding write_output_def by (rule upload_events)
    with assms(2) ev inv show ?thesis by auto
  qed
qed

text \<open>
  C1. With segment processes 1 and 2 whose invocations return \<open>{"k": 1}\<close> and \<open>{"k": 2}\<close>,
  merging the two in order would give \<open>{"k": 2}\<close>; the dict \<^verbatim>\<open>run_segment\<close> passes to
  the output write is empty, since the merged dict is dropped in every iteration.
\<close>

theorem run_segment_writes_empty_results:
  "run_process wired_self (spec_k 1) = ([Invoke ''k''], Inr [(''k'', PInt 1)]) \<and>
   run_process wired_self (spec_k 2) = ([Invoke ''k''], Inr [(''k'', PInt 2)]) \<and>
   append_to_results (append_to_results [] [(''k'', PInt 1)]) [(''k'', PInt 2)]
     = [(''k'', PInt 2)] \<and>
   run_segment example_ext wired_self =
     ([Invoke ''k'', Invoke ''k'',
       DiskWrite [] ''forecast/test_1/segment_results/segment_results.json''], Inr ())"
  by (simp add: run_segment_def wired_self_def run_process_def spec_k_def class_k_def
      write_output_def upload_file_to_output_channel_def disk_interactor_def example_ext_def
      append_to_results_def)

text \<open>
  C2. On every instance the constructor returns, \<^verbatim>\<open>run_segment\<close> raises AttributeError
  with no process invoked and nothing written: \<open>module_id_list\<close> and \<open>run_config\<close> are
  not among the attributes the constructor assigns.
\<close>

theorem run_segment_after_init_raises:
  "init x a = Inr self \<Longrightarrow>
     run_segment x self = ([], Inl AttributeError) \<and>
     module_id_list self = Absent \<and> run_config self = Absent"
  by (auto simp: init_def run_segment_def Let_def split: option.splits)

theorem run_segment_after_init_raises_witness:
  "init example_ext main_args = Inr main_self \<and>
   run_segment example_ext main_self = ([], Inl AttributeError) \<and>
   module_id_list main_self = Absent \<and> run_config main_self = Absent"
  using run_segment_after_init_raises [OF init_main] init_main by simp

text \<open>
  C3, as stated: with the batch identifier left out of the call, the instance's batch
  identifier is the parameter default \<open>batch_1\<close>, which is no UUID text.
\<close>

theorem batch_id_left_out_counterexample:
  "a_batch_id segment_only_args = Omitted \<and>
   init example_ext segment_only_args = Inr default_self \<and>
   batch_id default_self = ''batch_1'' \<and>
   \<not> valid_uuid_format (batch_id default_self)"
  by (simp add: init_segment_only)
     (simp add: segment_only_args_def no_args_def default_self_def valid_uuid_format_def)

text \<open>
  C3, amended: when the batch identifier is passed as None, the instance's batch identifier
  is the text of the one UUID generated during construction; it is held in a field, so
  every read gives that text, and it is non-empty and in UUID format whenever the
  generator's text is.
\<close>

theorem batch_id_none_is_generated:
  "a_batch_id a = Given None \<Longrightarrow> init x a = Inr self \<Longrightarrow>
     batch_id self = uuid4_str x \<and>
     (valid_uuid_format (uuid4_str x) \<longrightarrow>
        batch_id self \<noteq> [] \<and> valid_uuid_format (batch_id self))"
  by (auto simp: init_def Let_def arg_or_def set_batch_id_def valid_uuid_format_def
      split: option.splits)

theorem batch_id_none_is_generated_witness:
  "a_batch_id none_args = Given None \<and>
   init example_ext none_args = Inr none_self \<and>
   valid_uuid_format (uuid4_str example_ext) \<and>
   batch_id none_self = uuid4_str example_ext \<and>
   batch_id none_self \<noteq> [] \<and> valid_uuid_format (batch_id none_self)"
proof -
  have a: "a_batch_id none_args = Given None"
    by (simp add: none_args_def no_args_def)
  have v: "valid_uuid_format (uuid4_str example_ext)"
    by code_simp
  from batch_id_none_is_generated [OF a init_none] a v init_none show ?thesis
    by metis
qed

text \<open>
  C4, as stated: with the output-channel selector left out of the call, the channel is the
  parameter default \<open>blob_storage\<close>, not \<open>disk\<close>.
\<close>

theorem results_channel_left_out_counterexample:
  "a_results_channel segment_only_args = Omitted \<and>
   init example_ext segment_only_args = Inr default_self \<and>
   results_channel default_self = ''blob_storage'' \<and>
   results_channel default_self \<noteq> ''disk''"
  by (simp add: init_segment_only)
     (simp add: segment_only_args_def no_args_def default_self_def)

text \<open>
  C4, amended: when the output-channel selector is passed as None, the channel is \<open>disk\<close>.
\<close>

theorem results_channel_none_is_disk:
  "a_results_channel a = Given None \<Longrightarrow> init x a = Inr self \<Longrightarrow>
     results_channel self = ''disk''"
  by (auto simp: init_def Let_def arg_or_def split: option.splits)

theorem results_channel_none_is_disk_witness:
  "a_results_channel none_args = Given None \<and>
   init example_ext none_args = Inr none_self \<and>
   results_channel none_self = ''disk''"
proof -
  have a: "a_results_channel none_args = Given None"
    by (simp add: none_args_def no_args_def)
  from results_channel_none_is_disk [OF a init_none] a init_none show ?thesis
    by simp
qed

text \<open>
  Routing with an interactor in place: channel \<open>disk\<close> calls its \<^verbatim>\<open>write_file_to_disk\<close>
  once, with the payload and the very path given; any channel other than \<open>disk\<close> and
  \<open>azure_blob\<close> raises NotImplementedError and calls nothing.
\<close>

lemma upload_disk_delegates:
  assumes "results_channel self = ''disk''" and "interactor self = Present i"
    and "i_write_file_to_disk i = Some w"
  shows "fst (upload_file_to_output_channel x self data_out file_name)
           = [DiskWrite data_out file_name]"
    and "snd (upload_file_to_output_channel x self data_out file_name)
           = (case w data_out file_name of Inl e \<Rightarrow> Inl e | Inr v \<Rightarrow> Inr ())"
  using assms by (simp_all add: upload_file_to_output_channel_def)

lemma upload_unknown_channel:
  assumes "results_channel self \<noteq> ''disk''" and "results_channel self \<noteq> ''azure_blob''"
  shows "upload_file_to_output_channel x self data_out file_name
           = ([], Inl NotImplementedError)"
  using assms by (simp add: upload_file_to_output_channel_def)

text \<open>On an instance as the constructor returns it, the \<open>disk\<close> branch raises.\<close>

lemma upload_disk_after_init:
  assumes "init x a = Inr self" and "results_channel self = ''disk''"
  shows "upload_file_to_output_channel x self data_out file_name = ([], Inl AttributeError)"
  using assms init_attributes(3) [OF assms(1)]
  by (simp add: upload_file_to_output_channel_def)

text \<open>
  C5. On the instance built with the channel selector None, the channel is \<open>disk\<close> and
  routing a payload raises AttributeError: \<open>interactor\<close> is assigned nowhere, and no write
  is delegated.
\<close>

theorem route_disk_after_init_raises:
  "init example_ext none_args = Inr none_self \<and>
   results_channel none_self = ''disk'' \<and>
   upload_file_to_output_channel example_ext none_self [(''k'', PInt 2)] ''out/x.json''
     = ([], Inl AttributeError)"
  by (simp add: init_none)
     (simp add: none_self_def upload_file_to_output_channel_def)

section \<open>Properties of the disk writer\<close>

subsection \<open>Lookups after a change of the tree\<close>

lemma walk_mono:
  "walk t cur cs = Inr k \<Longrightarrow> (\<And>j. t j = Some Dir \<Longrightarrow> t' j = Some Dir) \<Longrightarrow> walk t' cur cs = Inr k"
  by (induction cs arbitrary: cur) (auto split: option.splits node.splits)

lemma start_dir_cwd: "cwd s' = cwd s \<Longrightarrow> start_dir s' p = start_dir s p"
  by (simp add: start_dir_def split: list.splits)

lemma lookup_mono:
  assumes "lookup s p = Inr k" and "cwd s' = cwd s"
    and "\<And>j. tree s j = Some Dir \<Longrightarrow> tree s' j = Some Dir"
  shows "lookup s' p = Inr k"
  using assms walk_mono [of "tree s" "start_dir s p" "components p" k "tree s'"]
    start_dir_cwd [of s' s p]
  by (auto simp: lookup_def split: if_splits)

lemma os_mkdir_isdir:
  assumes "os_mkdir s p = Inr s'"
  shows "os_path_isdir s' p" and "os_path_exists s' p"
proof -
  from assms obtain k where k: "lookup s p = Inr k" "tree s k = None"
    and s': "s' = s\<lparr>tree := (tree s)(k \<mapsto> Dir)\<rparr>"
    by (auto simp: os_mkdir_def split: sum.splits if_splits)
  have "lookup s' p = Inr k"
    by (rule lookup_mono [OF k(1)]) (use k(2) s' in auto)
  then show "os_path_isdir s' p" and "os_path_exists s' p"
    by (simp_all add: os_path_isdir_def os_path_exists_def s')
qed

lemma os_remove_gone:
  assumes "os_remove s p = Inr s'"
  shows "\<not> os_path_exists s' p"
proof -
  from assms obtain k where k: "lookup s p = Inr k" "tree s k = Some File"
    and s': "s' = s\<lparr>tree := (tree s)(k := None)\<rparr>"
    by (auto simp: os_remove_def split: sum.splits option.splits node.splits)
  have "lookup s' p = Inr k"
    by (rule lookup_mono [OF k(1)]) (use k(2) s' in auto)
  then show ?thesis
    by (simp add: os_path_exists_def s')
qed

lemma os_remove_file:
  assumes "os_path_exists s p" and "\<not> os_path_isdir s p"
  shows "\<exists>s'. os_remove s p = Inr s'"
  using assms
  by (auto simp: os_remove_def os_path_exists_def os_path_isdir_def
      split: sum.splits option.splits node.splits)

lemma makedirs_walk_keeps:
  "makedirs_walk t cur fresh cs = (t', r) \<Longrightarrow> t j = Some v \<Longrightarrow> t' j = Some v"
proof (induction cs arbitrary: t cur fresh)
  case Nil
  then show ?case by simp
next
  case (Cons c cs)
  show ?case
  proof (cases "t cur = Some Dir \<and> c \<noteq> ''..'' \<and> t (cur @ [c]) = None")
    case True
    with Cons.prems(1)
    have m: "makedirs_walk (t(cur @ [c] \<mapsto> Dir)) (cur @ [c]) True cs = (t', r)"
      by simp
    from True Cons.prems(2) have "(t(cur @ [c] \<mapsto> Dir)) j = Some v"
      by auto
    with Cons.IH [OF m] show ?thesis .
  next
    case False
    with Cons.prems(1)
    have "t' = t \<or> (\<exists>cur' fresh'. makedirs_walk t cur' fresh' cs = (t', r))"
      by (auto split: option.splits node.splits if_splits)
    then show ?thesis
    proof
      assume "t' = t"
      with Cons.prems(2) show ?thesis by simp
    next
      assume "\<exists>cur' fresh'. makedirs_walk t cur' fresh' cs = (t', r)"
      then obtain cur' fresh' where "makedirs_walk t cur' fresh' cs = (t', r)"
        by blast
      from Cons.IH [OF this Cons.prems(2)] show ?thesis .
    qed
  qed
qed

lemma makedirs_walk_reaches:
  "makedirs_walk t cur fresh cs = (t', None) \<Longrightarrow> (cs = [] \<Longrightarrow> t cur = Some Dir) \<Longrightarrow>
     \<exists>k. walk t' cur cs = Inr k \<and> t' k = Some Dir"
proof (induction cs arbitrary: t cur fresh)
  case Nil
  then show ?case by (auto split: if_splits)
next
  case (Cons c cs)
  from Cons.prems(1) have cur: "t cur = Some Dir"
    by (auto split: option.splits node.splits)
  have cur': "t' cur = Some Dir"
    using makedirs_walk_keeps [OF Cons.prems(1) cur] .
  show ?case
  proof (cases "c = ''..''")
    case True
    with Cons.prems(1) cur have m: "makedirs_walk t (butlast cur) False cs = (t', None)"
      by simp
    then have "cs \<noteq> []" by auto
    with Cons.IH [OF m] obtain k where "walk t' (butlast cur) cs = Inr k" "t' k = Some Dir"
      by auto
    with cur' True show ?thesis by (auto simp: step_def)
  next
    case False
    show ?thesis
    proof (cases "t (cur @ [c])")
      case None
      with Cons.prems(1) cur False
      have m: "makedirs_walk (t(cur @ [c] \<mapsto> Dir)) (cur @ [c]) True cs = (t', None)"
        by simp
      from Cons.IH [OF m] obtain k where "walk t' (cur @ [c]) cs = Inr k" "t' k = Some Dir"
        by auto
      with cur' False show ?thesis by (auto simp: step_def)
    next
      case (Some v)
      with Cons.prems(1) cur False
      have m: "makedirs_walk t (cur @ [c]) False cs = (t', None)"
        by simp
      then have "cs \<noteq> []" by auto
      with Cons.IH [OF m] obtain k where "walk t' (cur @ [c]) cs = Inr k" "t' k = Some Dir"
        by auto
      with cur' False show ?thesis by (auto simp: step_def)
    qed
  qed
qed

lemma os_makedirs_isdir:
  assumes "os_makedirs s p = (s', None)"
  shows "os_path_isdir s' p"
proof -
  from assms obtain t' where p: "p \<noteq> []"
    and m: "makedirs_walk (tree s) (start_dir s p) False (components p) = (t', None)"
    and s': "s' = s\<lparr>tree := t'\<rparr>"
    by (auto simp: os_makedirs_def split: if_splits prod.splits)
  from m have "components p \<noteq> []" by auto
  with makedirs_walk_reaches [OF m] obtain k
    where "walk t' (start_dir s p) (components p) = Inr k" "t' k = Some Dir"
    by auto
  moreover have "start_dir s' p = start_dir s p"
    by (rule start_dir_cwd) (simp add: s')
  ultimately show ?thesis
    using p s' by (simp add: os_path_isdir_def lookup_def)
qed


lemma components_examples:
  "components ''a'' = [''a'']" "components ''a/b'' = [''a'', ''b'']"
  "components ''f'' = [''f'']" "components ''f/y/z'' = [''f'', ''y'', ''z'']"
  "components ''x/y'' = [''x'', ''y'']"
  by (simp_all add: components_def)

lemmas fs_eval =
  os_path_exists_def os_path_isdir_def os_mkdir_def os_makedirs_def os_remove_def
  lookup_def start_dir_def components_examples step_def fs_root_def fs_file_def

subsection \<open>Directories\<close>

text \<open>
  C6, as stated: \<open>f/y/z\<close> does not exist on the disk whose root holds the regular file
  \<open>f\<close>, and \<^verbatim>\<open>create_multilevel_directories\<close> returns False there and creates nothing,
  since \<^verbatim>\<open>os.makedirs\<close> raises.
\<close>

theorem create_multilevel_directories_file_on_path_counterexample:
  "\<not> os_path_exists fs_file ''f/y/z'' \<and>
   create_multilevel_directories fs_file ''f/y/z'' = (fs_file, PBool False)"
  by (simp add: create_multilevel_directories_def fs_eval)

text \<open>
  C6, amended: on a path that exists the call raises nothing, leaves the disk as it is and
  does not return True. On a path that does not exist it returns True exactly when
  \<^verbatim>\<open>os.makedirs\<close> succeeds, and then the path is a directory, reached through
  directories at every level, with everything that was on the disk still there; when
  \<^verbatim>\<open>os.makedirs\<close> raises it returns False.
\<close>

theorem create_multilevel_directories_cases:
  "(os_path_exists s p \<longrightarrow>
      fst (create_multilevel_directories s p) = s \<and>
      snd (create_multilevel_directories s p) \<noteq> PBool True) \<and>
   (\<not> os_path_exists s p \<longrightarrow>
      (case os_makedirs s p of
         (s', None) \<Rightarrow>
           create_multilevel_directories s p = (s', PBool True) \<and> os_path_isdir s' p \<and>
           (\<forall>k v. tree s k = Some v \<longrightarrow> tree s' k = Some v)
       | (s', Some e) \<Rightarrow> create_multilevel_directories s p = (s', PBool False)))"
proof (intro conjI impI)
  assume "os_path_exists s p"
  then show "fst (create_multilevel_directories s p) = s"
    and "snd (create_multilevel_directories s p) \<noteq> PBool True"
    by (simp_all add: create_multilevel_directories_def)
next
  assume n: "\<not> os_path_exists s p"
  show "case os_makedirs s p of
         (s', None) \<Rightarrow>
           create_multilevel_directories s p = (s', PBool True) \<and> os_path_isdir s' p \<and>
           (\<forall>k v. tree s k = Some v \<longrightarrow> tree s' k = Some v)
       | (s', Some e) \<Rightarrow> create_multilevel_directories s p = (s', PBool False)"
  proof (cases "os_makedirs s p")
    case (Pair s' r)
    show ?thesis
    proof (cases r)
      case None
      with Pair have m: "os_makedirs s p = (s', None)" by simp
      have keep: "\<forall>k v. tree s k = Some v \<longrightarrow> tree s' k = Some v"
        using m makedirs_walk_keeps
        by (fastforce simp: os_makedirs_def split: if_splits prod.splits)
      from n m os_makedirs_isdir [OF m] keep show ?thesis
        by (simp add: create_multilevel_directories_def)
    next
      case (Some e)
      with n Pair show ?thesis
        by (simp add: create_multilevel_directories_def)
    qed
  qed
qed

theorem create_multilevel_directories_cases_witness:
  "os_path_exists fs_file ''f'' \<and>
   fst (create_multilevel_directories fs_file ''f'') = fs_file \<and>
   snd (create_multilevel_directories fs_file ''f'') \<noteq> PBool True \<and>
   \<not> os_path_exists fs_root ''x/y'' \<and>
   snd (os_makedirs fs_root ''x/y'') = None \<and>
   snd (create_multilevel_directories fs_root ''x/y'') = PBool True \<and>
   os_path_isdir (fst (create_multilevel_directories fs_root ''x/y'')) ''x/y''"
proof -
  have ex: "os_path_exists fs_file ''f''"
    by (simp add: fs_eval)
  have nx: "\<not> os_path_exists fs_root ''x/y''"
    by (simp add: fs_eval)
  have ok: "snd (os_makedirs fs_root ''x/y'') = None"
    by (simp add: fs_eval)
  from create_multilevel_directories_cases [of fs_file "''f''"] ex
  have 1: "fst (create_multilevel_directories fs_file ''f'') = fs_file"
    "snd (create_multilevel_directories fs_file ''f'') \<noteq> PBool True"
    by blast+
  from create_multilevel_directories_cases [of fs_root "''x/y''"] nx ok
  have 2: "snd (create_multilevel_directories fs_root ''x/y'') = PBool True"
    "os_path_isdir (fst (create_multilevel_directories fs_root ''x/y'')) ''x/y''"
    by (auto split: prod.splits option.splits)
  from ex nx ok 1 2 show ?thesis by blast
qed

text \<open>What the call returns on a path that exists is None, not False.\<close>

lemma create_multilevel_directories_existing:
  "os_path_exists s p \<Longrightarrow> create_multilevel_directories s p = (s, PNone)"
  by (simp add: create_multilevel_directories_def)

text \<open>
  C9, as stated: \<open>a/b\<close> does not exist on the disk that holds only the root, and
  \<^verbatim>\<open>create_directory\<close> returns False there and creates nothing, since \<open>a\<close> is missing and
  \<^verbatim>\<open>os.mkdir\<close> raises.
\<close>

theorem create_directory_missing_parent_counterexample:
  "\<not> os_path_exists fs_root ''a/b'' \<and>
   create_directory fs_root ''a/b'' = (fs_root, False)"
  by (simp add: create_directory_def fs_eval)

text \<open>
  C9, amended: on a path that exists \<^verbatim>\<open>create_directory\<close> returns False, raises nothing
  and leaves the disk as it is. On a path that does not exist it returns True when
  \<^verbatim>\<open>os.mkdir\<close> succeeds, and the path is then a directory; when \<^verbatim>\<open>os.mkdir\<close> raises it
  returns False. Whenever a call returns True, the same call right after it returns False.
\<close>

theorem create_directory_true_then_false:
  "(os_path_exists s p \<longrightarrow> create_directory s p = (s, False)) \<and>
   (\<not> os_path_exists s p \<longrightarrow>
      (case os_mkdir s p of
         Inr s' \<Rightarrow> create_directory s p = (s', True) \<and> os_path_isdir s' p
       | Inl e \<Rightarrow> create_directory s p = (s, False))) \<and>
   (snd (create_directory s p) \<longrightarrow>
      \<not> snd (create_directory (fst (create_directory s p)) p))"
proof (intro conjI impI)
  assume "os_path_exists s p"
  then show "create_directory s p = (s, False)"
    by (simp add: create_directory_def)
next
  assume "\<not> os_path_exists s p"
  then show "case os_mkdir s p of
         Inr s' \<Rightarrow> create_directory s p = (s', True) \<and> os_path_isdir s' p
       | Inl e \<Rightarrow> create_directory s p = (s, False)"
    by (auto simp: create_directory_def os_mkdir_isdir split: sum.splits)
next
  assume t: "snd (create_directory s p)"
  then obtain s' where m: "os_mkdir s p = Inr s'" and c: "create_directory s p = (s', True)"
    by (auto simp: create_directory_def split: if_splits sum.splits)
  from os_mkdir_isdir(2) [OF m] have "create_directory s' p = (s', False)"
    by (simp add: create_directory_def)
  with c show "\<not> snd (create_directory (fst (create_directory s p)) p)"
    by simp
qed

theorem create_directory_true_then_false_witness:
  "os_path_exists fs_file ''f'' \<and>
   create_directory fs_file ''f'' = (fs_file, False) \<and>
   \<not> os_path_exists fs_root ''a'' \<and>
   snd (create_directory fs_root ''a'') \<and>
   os_path_isdir (fst (create_directory fs_root ''a'')) ''a'' \<and>
   \<not> snd (create_directory (fst (create_directory fs_root ''a'')) ''a'')"
proof -
  have ex: "os_path_exists fs_file ''f''"
    by (simp add: fs_eval)
  have nx: "\<not> os_path_exists fs_root ''a''"
    by (simp add: fs_eval)
  have t: "snd (create_directory fs_root ''a'')"
    by (simp add: create_directory_def fs_eval)
  from create_directory_true_then_false [of fs_file "''f''"] ex
  have 1: "create_directory fs_file ''f'' = (fs_file, False)"
    by blast
  from create_directory_true_then_false [of fs_root "''a''"] t
  have 2: "\<not> snd (create_directory (fst (create_directory fs_root ''a'')) ''a'')"
    by blast
  from create_directory_true_then_false [of fs_root "''a''"] nx t
  have 3: "os_path_isdir (fst (create_directory fs_root ''a'')) ''a''"
    by (auto split: sum.splits)
  from ex nx t 1 2 3 show ?thesis by blast
qed

subsection \<open>Deleting files\<close>

text \<open>
  C8. Where nothing exists at the path, \<^verbatim>\<open>delete_file_from_disk\<close> returns True and leaves
  the disk as it is, for either value of \<open>ret_result\<close>; so does a second call. More
  generally, on any path that is not a directory, deleting twice returns True both times.
\<close>

theorem delete_file_from_disk_absent:
  "(\<not> os_path_exists s p \<longrightarrow> delete_file_from_disk s p ret_result = (s, True)) \<and>
   (\<not> os_path_isdir s p \<longrightarrow>
      snd (delete_file_from_disk s p ret_result) \<and>
      snd (delete_file_from_disk (fst (delete_file_from_disk s p ret_result)) p ret_result'))"
proof (intro conjI impI)
  assume "\<not> os_path_exists s p"
  then show "delete_file_from_disk s p ret_result = (s, True)"
    by (simp add: delete_file_from_disk_def delete_file_def ret_result_or_bool_def)
next
  assume d: "\<not> os_path_isdir s p"
  have absent: "delete_file_from_disk s0 p r = (s0, True)" if "\<not> os_path_exists s0 p" for s0 r
    using that by (simp add: delete_file_from_disk_def delete_file_def ret_result_or_bool_def)
  show "snd (delete_file_from_disk s p ret_result)"
    using d os_remove_file [of s p]
    by (auto simp: delete_file_from_disk_def delete_file_def ret_result_or_bool_def)
  show "snd (delete_file_from_disk (fst (delete_file_from_disk s p ret_result)) p ret_result')"
  proof (cases "os_path_exists s p")
    case False
    then show ?thesis by (simp add: absent)
  next
    case True
    with d os_remove_file obtain s' where r: "os_remove s p = Inr s'" by blast
    with True have "fst (delete_file_from_disk s p ret_result) = s'"
      by (simp add: delete_file_from_disk_def delete_file_def)
    with absent [OF os_remove_gone [OF r]] show ?thesis by simp
  qed
qed

theorem delete_file_from_disk_absent_witness:
  "\<not> os_path_exists fs_root ''a/b'' \<and>
   delete_file_from_disk fs_root ''a/b'' False = (fs_root, True) \<and>
   delete_file_from_disk (fst (delete_file_from_disk fs_root ''a/b'' False)) ''a/b'' False
     = (fs_root, True) \<and>
   \<not> os_path_isdir fs_file ''f'' \<and> os_path_exists fs_file ''f'' \<and>
   snd (delete_file_from_disk fs_file ''f'' False) \<and>
   snd (delete_file_from_disk (fst (delete_file_from_disk fs_file ''f'' False)) ''f'' False)"
proof -
  have nx: "\<not> os_path_exists fs_root ''a/b''"
    by (simp add: fs_eval)
  have nd: "\<not> os_path_isdir fs_file ''f''" and ex: "os_path_exists fs_file ''f''"
    by (simp_all add: fs_eval)
  from delete_file_from_disk_absent [of fs_root "''a/b''" False] nx
  have 1: "delete_file_from_disk fs_root ''a/b'' False = (fs_root, True)"
    by blast
  from delete_file_from_disk_absent [of fs_file "''f''" False False] nd
  have 2: "snd (delete_file_from_disk fs_file ''f'' False)"
    "snd (delete_file_from_disk (fst (delete_file_from_disk fs_file ''f'' False)) ''f'' False)"
    by blast+
  from nx nd ex 1 2 show ?thesis by simp
qed

subsection \<open>Writing files\<close>

lemmas write_eval =
  write_file_to_disk_def write_file_def write_fun_from_file_extension_def
  write_json_data_def write_csv_data_def write_obj_data_def set_upload_file_name_def
  ret_result_or_bool_def endswith_def log_writers_def raises_under_missing_def

text \<open>
  C10. \<^verbatim>\<open>write_file_to_disk\<close> always returns a boolean, never an exception: for every
  payload, name, \<open>include_datetime\<close> and \<open>ret_result\<close>, the boolean is True exactly when the
  writer chosen by the suffix of the upload name did not raise, and the disk is left as
  that writer left it.
\<close>

theorem write_file_to_disk_result:
  "write_file_to_disk W data_out file_name include_datetime ret_result s =
     (fst (write_fun_from_file_extension W
             (if include_datetime then set_upload_file_name W s file_name else file_name)
             data_out s),
      snd (write_fun_from_file_extension W
             (if include_datetime then set_upload_file_name W s file_name else file_name)
             data_out s) = None)"
  by (cases "write_fun_from_file_extension W
             (if include_datetime then set_upload_file_name W s file_name else file_name)
             data_out s"; cases ret_result)
     (auto simp: write_file_to_disk_def write_file_def ret_result_or_bool_def Let_def
       split: option.splits)

theorem write_file_to_disk_result_witness:
  "write_file_to_disk log_writers (PInt 1) ''missing/x.json'' False True []
     = ([''missing/x.json''], False) \<and>
   write_file_to_disk log_writers (PInt 1) ''missing/x.json'' False False []
     = ([''missing/x.json''], False) \<and>
   write_file_to_disk log_writers (PInt 1) ''b/y.csv'' False True [] = ([''b/y.csv''], True) \<and>
   write_file_to_disk log_writers (PInt 1) ''b/y.csv'' False False [] = ([''b/y.csv''], True)"
  using write_file_to_disk_result [of log_writers "PInt 1" "''missing/x.json''" False True "[]"]
    write_file_to_disk_result [of log_writers "PInt 1" "''missing/x.json''" False False "[]"]
    write_file_to_disk_result [of log_writers "PInt 1" "''b/y.csv''" False True "[]"]
    write_file_to_disk_result [of log_writers "PInt 1" "''b/y.csv''" False False "[]"]
  by (simp add: write_fun_from_file_extension_def write_json_data_def write_csv_data_def
      write_obj_data_def endswith_def log_writers_def raises_under_missing_def)

lemma write_each_outcomes:
  "map fst (snd (write_each W idt rr entries s)) = map (basename \<circ> fst) entries"
proof (induction entries arbitrary: s)
  case Nil
  show ?case by simp
next
  case (Cons e entries)
  obtain f d where e: "e = (f, d)" by (cases e)
  obtain s' b where w: "write_file_to_disk W d f idt rr s = (s', b)"
    by (cases "write_file_to_disk W d f idt rr s")
  obtain s'' bs where r: "write_each W idt rr entries s' = (s'', bs)"
    by (cases "write_each W idt rr entries s'")
  from Cons.IH [of s'] e w r show ?case by simp
qed

lemma write_files_loop_each:
  "fst (write_files_loop W idt rr rd entries s) = fst (write_each W idt rr entries s) \<and>
   map_of (snd (write_files_loop W idt rr rd entries s))
     = map_of rd ++ map_of (rev (snd (write_each W idt rr entries s)))"
proof (induction entries arbitrary: rd s)
  case Nil
  show ?case by simp
next
  case (Cons e entries)
  obtain f d where e: "e = (f, d)" by (cases e)
  obtain s' b where w: "write_file_to_disk W d f idt rr s = (s', b)"
    by (cases "write_file_to_disk W d f idt rr s")
  obtain s'' bs where r: "write_each W idt rr entries s' = (s'', bs)"
    by (cases "write_each W idt rr entries s'")
  from Cons.IH [of "AList.update (basename f) b rd" s'] e w r show ?case
    by (simp add: update_conv' map_add_def fun_eq_iff split: option.splits)
qed

lemma distinct_update_loop:
  "distinct (map fst rd) \<Longrightarrow> distinct (map fst (snd (write_files_loop W idt rr rd entries s)))"
  by (induction entries arbitrary: rd s) (auto simp: distinct_update split: prod.splits)


text \<open>
  C7. \<^verbatim>\<open>write_files_to_disk\<close> leaves the disk as writing every entry once, in input order,
  leaves it, whatever the single writes returned; the outcomes are listed under the base
  names of the destinations, each base name once, and a base name that occurs more than
  once holds the outcome of its last entry.
\<close>

theorem write_files_to_disk_batch:
  "fst (write_files_to_disk W entries idt rr s) = fst (write_each W idt rr entries s) \<and>
   map fst (snd (write_each W idt rr entries s)) = map (basename \<circ> fst) entries \<and>
   map_of (snd (write_files_to_disk W entries idt rr s))
     = map_of (rev (snd (write_each W idt rr entries s))) \<and>
   fst ` set (snd (write_files_to_disk W entries idt rr s)) = basename ` fst ` set entries \<and>
   distinct (map fst (snd (write_files_to_disk W entries idt rr s)))"
proof -
  let ?res = "snd (write_files_to_disk W entries idt rr s)"
  let ?outs = "snd (write_each W idt rr entries s)"
  have m: "map_of ?res = map_of (rev ?outs)"
    using write_files_loop_each [of W idt rr "[]" entries s]
    by (simp add: write_files_to_disk_def)
  have "fst ` set ?res = dom (map_of ?res)"
    by (simp add: dom_map_of_conv_image_fst)
  also have "\<dots> = fst ` set (rev ?outs)"
    by (simp only: m dom_map_of_conv_image_fst)
  also have "\<dots> = set (map fst ?outs)"
    by simp
  also have "\<dots> = basename ` fst ` set entries"
    by (simp only: write_each_outcomes) (simp add: image_image)
  finally have keys: "fst ` set ?res = basename ` fst ` set entries" .
  show ?thesis
    using write_files_loop_each [of W idt rr "[]" entries s] m keys
      write_each_outcomes [of W idt rr entries s]
      distinct_update_loop [of "[]" W idt rr entries s]
    by (simp add: write_files_to_disk_def)
qed

theorem write_files_to_disk_batch_witness:
  "write_files_to_disk log_writers
     [(''missing/x.json'', PInt 1), (''b/x.json'', PInt 2), (''b/y.csv'', PInt 3)] False False []
     = ([''missing/x.json'', ''b/x.json'', ''b/y.csv''], [(''x.json'', True), (''y.csv'', True)]) \<and>
   write_each log_writers False False
     [(''missing/x.json'', PInt 1), (''b/x.json'', PInt 2), (''b/y.csv'', PInt 3)] []
     = ([''missing/x.json'', ''b/x.json'', ''b/y.csv''],
        [(''x.json'', False), (''x.json'', True), (''y.csv'', True)]) \<and>
   write_files_to_disk log_writers
     [(''a/x.json'', PInt 1), (''missing/x.json'', PInt 2)] False False []
     = ([''a/x.json'', ''missing/x.json''], [(''x.json'', False)])"
  using write_files_to_disk_batch [of log_writers
      "[(''missing/x.json'', PInt 1), (''b/x.json'', PInt 2), (''b/y.csv'', PInt 3)]" False False "[]"]
  by (simp add: write_files_to_disk_def write_eval basename_def rfind_def)

end
